theory Spec2Isabelle
  imports Main "HOL-Library.Word"
begin

unbundle bit_operations_syntax

section \<open>ParticularMatter firmware: configuration store, frame decoder, supervisors\<close>

text \<open>
  A shallow embedding of \<^verbatim>\<open>src/cpp/ParticularMatter_public.cpp\<close>. The globals of the
  sketch become fields of one \<open>device\<close> record that every operation takes and returns;
  what the sketch asks of its surroundings (\<^verbatim>\<open>millis()\<close>, \<^verbatim>\<open>WiFi.status()\<close>, the serial
  line, the outcome of \<^verbatim>\<open>EEPROM.commit()\<close>) is an argument of the operation.
\<close>

subsection \<open>Machine types and constants\<close>

type_synonym byte = "8 word"
type_synonym u16 = "16 word"
type_synonym u32 = "32 word"

definition MAX_LEN :: nat where
  "MAX_LEN = 64"

definition UUID_LEN :: nat where
  "UUID_LEN = 37"

text \<open>A string literal of the sketch as the bytes of its characters.\<close>

definition bytes_of :: "string \<Rightarrow> byte list" where
  "bytes_of s = map (\<lambda>c. of_nat (of_char c)) s"

text \<open>
  The text held by a \<^verbatim>\<open>char[]\<close> field, as \<^verbatim>\<open>String(field)\<close> and \<^verbatim>\<open>strlen\<close> read it: the
  bytes before the first NUL.
\<close>

definition cstr :: "byte list \<Rightarrow> byte list" where
  "cstr buf = takeWhile (\<lambda>b. b \<noteq> 0) buf"

subsection \<open>copyString\<close>

text \<open>
  \<^verbatim>\<open>size_t n = src.length(); if (n >= dstSize) n = dstSize - 1;\<close>
  \<^verbatim>\<open>size_t\<close> is 32 bits wide on the ESP8266, so \<^verbatim>\<open>dstSize - 1\<close> wraps at \<^verbatim>\<open>dstSize = 0\<close>.
\<close>

definition copyString_n :: "nat \<Rightarrow> nat \<Rightarrow> nat" where
  "copyString_n srcLen dstSize =
     (if srcLen \<ge> dstSize then (dstSize + 2 ^ 32 - 1) mod 2 ^ 32 else srcLen)"

text \<open>
  \<^verbatim>\<open>memcpy(dst, src, n)\<close> on the memory that starts at \<open>dst\<close>: the first \<open>n\<close> bytes are
  replaced. A copy that runs past the end of \<open>dst\<close> is not hidden: the result is longer
  than \<open>dst\<close> was.
\<close>

definition memcpy :: "byte list \<Rightarrow> byte list \<Rightarrow> nat \<Rightarrow> byte list" where
  "memcpy dst src n = take n src @ drop n dst"

text \<open>\<^verbatim>\<open>dst[n] = v\<close>; a store past the end of \<open>dst\<close> lengthens the result as well.\<close>

definition store_at :: "byte list \<Rightarrow> nat \<Rightarrow> byte \<Rightarrow> byte list" where
  "store_at dst n v =
     (if n < length dst then dst[n := v]
      else dst @ replicate (n - length dst) 0 @ [v])"

text \<open>
  \<open>copyString src dst dstSize\<close>: \<open>src\<close> is the text of the \<^verbatim>\<open>String\<close> (its \<^verbatim>\<open>c_str()\<close> is
  the text and a NUL), \<open>dst\<close> the memory from the destination pointer on.
\<close>

definition copyString :: "byte list \<Rightarrow> byte list \<Rightarrow> nat \<Rightarrow> byte list" where
  "copyString src dst dstSize =
     (let n = copyString_n (length src) dstSize
      in store_at (memcpy dst (src @ [0]) n) n 0)"

subsection \<open>The configuration record and the sample\<close>

text \<open>\<^verbatim>\<open>struct ESPConfig\<close>: every \<^verbatim>\<open>char[]\<close> field is its bytes.\<close>

record ESPConfig =
  magic :: u32
  wifi_ssid :: "byte list"
  wifi_pass :: "byte list"
  user_email :: "byte list"
  device_name :: "byte list"
  one_time_key :: "byte list"
  node_id :: "byte list"
  mqtt_host :: "byte list"
  mqtt_port :: u16
  mqtt_username :: "byte list"
  mqtt_password :: "byte list"
  first_sensor_id :: "byte list"
  first_sensor_sn :: "byte list"
  registration_ok :: byte

text \<open>\<^verbatim>\<open>memset(&config, 0, sizeof(config))\<close>\<close>

definition zeroed_config :: ESPConfig where
  "zeroed_config =
     \<lparr>magic = 0,
      wifi_ssid = replicate MAX_LEN 0, wifi_pass = replicate MAX_LEN 0,
      user_email = replicate MAX_LEN 0, device_name = replicate MAX_LEN 0,
      one_time_key = replicate MAX_LEN 0,
      node_id = replicate UUID_LEN 0, mqtt_host = replicate MAX_LEN 0, mqtt_port = 0,
      mqtt_username = replicate MAX_LEN 0, mqtt_password = replicate MAX_LEN 0,
      first_sensor_id = replicate UUID_LEN 0, first_sensor_sn = replicate MAX_LEN 0,
      registration_ok = 0\<rparr>"

record PMSData =
  pm1_cf1 :: u16
  pm25_cf1 :: u16
  pm10_cf1 :: u16
  pm1_atm :: u16
  pm25_atm :: u16
  pm10_atm :: u16
  ts_ms :: u32
  valid :: bool

text \<open>The default member initialisers of \<^verbatim>\<open>struct PMSData\<close>.\<close>

definition PMSData_init :: PMSData where
  "PMSData_init =
     \<lparr>pm1_cf1 = 0, pm25_cf1 = 0, pm10_cf1 = 0, pm1_atm = 0, pm25_atm = 0, pm10_atm = 0,
      ts_ms = 0, valid = False\<rparr>"

subsection \<open>The device: the globals of the sketch\<close>

text \<open>
  The calls to the storage medium, the station and the registration are logged in
  order, so that "before" and "no write" can be stated: a write to the EEPROM buffer, a
  commit with its outcome and the image that the medium holds after it, a station join,
  and the registration exchange (the stub's simulated reply, or the place of the POST).
\<close>

datatype event =
    EepromPut ESPConfig
  | EepromCommit bool ESPConfig
  | WifiBegin "byte list" "byte list"
  | WifiDisconnect
  | RegistrationExchange

record device =
  config :: ESPConfig
  g_pms :: PMSData
  lastStaAttempt :: u32
  staBackoffMs :: u32
  lastMqttConnAttempt :: u32
  mqttBackoffMs :: u32
  lastMqttPub :: u32
  eeprom_data :: ESPConfig
  eeprom_flash :: ESPConfig
  trace :: "event list"

subsection \<open>The storage medium\<close>

text \<open>
  Modelled from the spec: the \<^verbatim>\<open>EEPROM\<close> object of the ESP8266 core is a library, not
  part of the repository. Following the storage contract of the specification (read,
  write, commit with a result), it is a buffer in memory, \<open>eeprom_data\<close>, over a persisted
  image, \<open>eeprom_flash\<close>; both are read through the layout of \<^verbatim>\<open>struct ESPConfig\<close>.
  \<^verbatim>\<open>begin\<close> loads the buffer from the image, \<^verbatim>\<open>get\<close> and \<^verbatim>\<open>put\<close> read and write the buffer,
  and \<^verbatim>\<open>commit\<close> copies the buffer to the image when the medium accepts it. What a
  rejected commit leaves on the medium is not the program's to decide: it comes with the
  outcome.
\<close>

datatype commit_result = CommitOK | CommitFailed ESPConfig

definition EEPROM_begin :: "device \<Rightarrow> device" where
  "EEPROM_begin d = d\<lparr>eeprom_data := eeprom_flash d\<rparr>"

definition EEPROM_get :: "device \<Rightarrow> ESPConfig" where
  "EEPROM_get d = eeprom_data d"

definition EEPROM_put :: "ESPConfig \<Rightarrow> device \<Rightarrow> device" where
  "EEPROM_put c d = d\<lparr>eeprom_data := c, trace := trace d @ [EepromPut c]\<rparr>"

fun EEPROM_commit :: "commit_result \<Rightarrow> device \<Rightarrow> bool \<times> device" where
  "EEPROM_commit CommitOK d =
     (True, d\<lparr>eeprom_flash := eeprom_data d,
              trace := trace d @ [EepromCommit True (eeprom_data d)]\<rparr>)"
| "EEPROM_commit (CommitFailed img) d =
     (False, d\<lparr>eeprom_flash := img, trace := trace d @ [EepromCommit False img]\<rparr>)"

subsection \<open>Persistence\<close>

text \<open>
  \<^verbatim>\<open>constexpr uint32_t CONFIG_MAGIC\<close> is written in the source with a literal that is
  not a number, so the operations take the constant as their first argument.
\<close>

definition loadConfig :: "u32 \<Rightarrow> commit_result \<Rightarrow> device \<Rightarrow> device" where
  "loadConfig CONFIG_MAGIC cr d =
     (let d1 = EEPROM_begin d;
          d2 = d1\<lparr>config := EEPROM_get d1\<rparr>
      in if magic (config d2) \<noteq> CONFIG_MAGIC then
           let d3 = d2\<lparr>config := zeroed_config\<rparr>;
               d4 = d3\<lparr>config := (config d3)\<lparr>magic := CONFIG_MAGIC\<rparr>\<rparr>;
               d5 = EEPROM_put (config d4) d4
           in snd (EEPROM_commit cr d5)
         else d2)"

definition saveConfig :: "u32 \<Rightarrow> commit_result \<Rightarrow> device \<Rightarrow> device" where
  "saveConfig CONFIG_MAGIC cr d =
     (let d1 = d\<lparr>config := (config d)\<lparr>magic := CONFIG_MAGIC\<rparr>\<rparr>;
          d2 = EEPROM_put (config d1) d1
      in snd (EEPROM_commit cr d2))"

definition clearConfig :: "commit_result \<Rightarrow> device \<Rightarrow> device" where
  "clearConfig cr d =
     (let d1 = d\<lparr>config := zeroed_config\<rparr>;
          d2 = EEPROM_put (config d1) d1
      in snd (EEPROM_commit cr d2))"


subsection \<open>Helpers\<close>

text \<open>\<^verbatim>\<open>field[0] != '\0'\<close>\<close>

definition first_nonzero :: "byte list \<Rightarrow> bool" where
  "first_nonzero buf = (case buf of [] \<Rightarrow> False | b # _ \<Rightarrow> b \<noteq> 0)"

definition haveWifiCreds :: "ESPConfig \<Rightarrow> bool" where
  "haveWifiCreds c = (first_nonzero (wifi_ssid c) \<and> first_nonzero (wifi_pass c))"

definition haveMqttCreds :: "ESPConfig \<Rightarrow> bool" where
  "haveMqttCreds c =
     (registration_ok c = 1 \<and>
      first_nonzero (node_id c) \<and>
      first_nonzero (mqtt_host c) \<and>
      mqtt_port c \<noteq> 0 \<and>
      first_nonzero (mqtt_username c) \<and>
      first_nonzero (mqtt_password c))"

subsection \<open>Station supervisor\<close>

text \<open>
  \<open>connected\<close> is \<^verbatim>\<open>WiFi.status() == WL_CONNECTED\<close> and \<open>now\<close> is \<^verbatim>\<open>millis()\<close>; the
  subtraction and the addition are those of \<^verbatim>\<open>uint32_t\<close>.
\<close>

definition ensureStaConnected :: "bool \<Rightarrow> u32 \<Rightarrow> device \<Rightarrow> device" where
  "ensureStaConnected connected now d =
     (if \<not> haveWifiCreds (config d) \<or> connected then d
      else if now - lastStaAttempt d < staBackoffMs d then d
      else
        let d1 = d\<lparr>trace := trace d @
                   [WifiBegin (cstr (wifi_ssid (config d))) (cstr (wifi_pass (config d)))]\<rparr>;
            d2 = d1\<lparr>lastStaAttempt := now\<rparr>;
            next = staBackoffMs d2 + 5000;
            next = (if next > 60000 then 60000 else next)
        in d2\<lparr>staBackoffMs := next\<rparr>)"

text \<open>
  \<^verbatim>\<open>connectSTA\<close>: the join blocks until the station is connected or the timeout has
  passed; \<open>joined\<close> is which of the two happened.
\<close>

definition connectSTA :: "bool \<Rightarrow> device \<Rightarrow> bool \<times> device" where
  "connectSTA joined d =
     (if \<not> haveWifiCreds (config d) then (False, d)
      else (joined, d\<lparr>trace := trace d @
              [WifiBegin (cstr (wifi_ssid (config d))) (cstr (wifi_pass (config d)))]\<rparr>))"

subsection \<open>Registration\<close>

text \<open>
  \<open>net\<close> is the build flag \<^verbatim>\<open>ENABLE_NETWORK\<close>. With it the function joins the station and
  marks the place of the POST; without it the stub fills in the fixed reply.
\<close>

definition stub_reply :: "ESPConfig \<Rightarrow> ESPConfig" where
  "stub_reply c =
     (let c = c\<lparr>node_id :=
                copyString (bytes_of ''00000000-0000-0000-0000-000000000001'') (node_id c) UUID_LEN\<rparr>;
          c = c\<lparr>mqtt_host := copyString (bytes_of ''mqtt.example.local'') (mqtt_host c) MAX_LEN\<rparr>;
          c = c\<lparr>mqtt_port := 1883\<rparr>;
          c = c\<lparr>mqtt_username := copyString (bytes_of ''demo-user'') (mqtt_username c) MAX_LEN\<rparr>;
          c = c\<lparr>mqtt_password := copyString (bytes_of ''demo-pass'') (mqtt_password c) MAX_LEN\<rparr>;
          c = c\<lparr>first_sensor_id :=
                copyString (bytes_of ''00000000-0000-0000-0000-00000000SENS'') (first_sensor_id c) UUID_LEN\<rparr>
      in c\<lparr>first_sensor_sn := copyString (bytes_of ''PMS5003-EDU'') (first_sensor_sn c) MAX_LEN\<rparr>)"

definition performRegistration ::
    "bool \<Rightarrow> u32 \<Rightarrow> bool \<Rightarrow> commit_result \<Rightarrow> device \<Rightarrow> bool \<times> device" where
  "performRegistration net CONFIG_MAGIC joined cr d =
     (if length (cstr (one_time_key (config d))) = 0 then (False, d)
      else
        let (proceed, d1) =
              (if net then
                 (case connectSTA joined d of
                    (False, d') \<Rightarrow> (False, d')
                  | (True, d') \<Rightarrow> (True, d'\<lparr>trace := trace d' @ [RegistrationExchange]\<rparr>))
               else
                 (True, d\<lparr>trace := trace d @ [RegistrationExchange],
                           config := stub_reply (config d)\<rparr>))
        in if \<not> proceed then (False, d1)
           else
             let d2 = d1\<lparr>config := (config d1)\<lparr>registration_ok := 1\<rparr>\<rparr>
             in (True, saveConfig CONFIG_MAGIC cr d2))"

subsection \<open>The save route\<close>

text \<open>
  A request: whether its method is POST, and its arguments (\<^verbatim>\<open>server.hasArg\<close>,
  \<^verbatim>\<open>server.arg\<close>). The surroundings of one call: the outcome of the two commits, the
  station status and the clock that \<^verbatim>\<open>ensureStaConnected\<close> reads, and whether the join
  inside the registration succeeds.
\<close>

record save_request =
  is_post :: bool
  args :: "string \<Rightarrow> byte list option"

record save_env =
  save_commit :: commit_result
  sta_connected :: bool
  sta_now :: u32
  reg_joined :: bool
  reg_commit :: commit_result

datatype http_response = MethodNotAllowed | SavedPage bool

text \<open>Lines 535 to 539: the user-entered fields that the request carries.\<close>

definition copy_args :: "(string \<Rightarrow> byte list option) \<Rightarrow> ESPConfig \<Rightarrow> ESPConfig" where
  "copy_args a c =
     (let c = (case a ''wifi_ssid'' of None \<Rightarrow> c
               | Some v \<Rightarrow> c\<lparr>wifi_ssid := copyString v (wifi_ssid c) MAX_LEN\<rparr>);
          c = (case a ''wifi_pass'' of None \<Rightarrow> c
               | Some v \<Rightarrow> c\<lparr>wifi_pass := copyString v (wifi_pass c) MAX_LEN\<rparr>);
          c = (case a ''user_email'' of None \<Rightarrow> c
               | Some v \<Rightarrow> c\<lparr>user_email := copyString v (user_email c) MAX_LEN\<rparr>);
          c = (case a ''device_name'' of None \<Rightarrow> c
               | Some v \<Rightarrow> c\<lparr>device_name := copyString v (device_name c) MAX_LEN\<rparr>)
      in (case a ''one_time_key'' of None \<Rightarrow> c
          | Some v \<Rightarrow> c\<lparr>one_time_key := copyString v (one_time_key c) MAX_LEN\<rparr>))"

text \<open>Lines 542 to 549: the flag, the port, and the first byte of each derived text.\<close>

definition reset_derived :: "ESPConfig \<Rightarrow> ESPConfig" where
  "reset_derived c =
     c\<lparr>registration_ok := 0,
       node_id := store_at (node_id c) 0 0,
       mqtt_host := store_at (mqtt_host c) 0 0,
       mqtt_username := store_at (mqtt_username c) 0 0,
       mqtt_password := store_at (mqtt_password c) 0 0,
       mqtt_port := 0,
       first_sensor_id := store_at (first_sensor_id c) 0 0,
       first_sensor_sn := store_at (first_sensor_sn c) 0 0\<rparr>"

definition handleSave ::
    "bool \<Rightarrow> u32 \<Rightarrow> save_request \<Rightarrow> save_env \<Rightarrow> device \<Rightarrow> http_response \<times> device" where
  "handleSave net CONFIG_MAGIC req env d =
     (if \<not> is_post req then (MethodNotAllowed, d)
      else
        let d1 = d\<lparr>config := copy_args (args req) (config d)\<rparr>;
            d2 = d1\<lparr>config := reset_derived (config d1)\<rparr>;
            d3 = saveConfig CONFIG_MAGIC (save_commit env) d2;
            d4 = d3\<lparr>lastStaAttempt := 0, staBackoffMs := 0,
                   trace := trace d3 @ [WifiDisconnect]\<rparr>;
            d5 = ensureStaConnected (sta_connected env) (sta_now env) d4;
            (regOk, d6) = performRegistration net CONFIG_MAGIC (reg_joined env) (reg_commit env) d5
        in (SavedPage regOk, d6))"

subsection \<open>PMS5003 frames\<close>

text \<open>
  The serial line as the sketch polls it: \<open>Some b\<close> where a byte is available and is
  read, \<open>None\<close> where \<^verbatim>\<open>pmsSerial.available()\<close> is false (or \<^verbatim>\<open>read()\<close> is negative) and the
  sketch waits; after the end of the list nothing arrives any more. The clock is the
  number of times the test \<^verbatim>\<open>(millis() - start) < timeout\<close> of a loop holds before it
  fails: a loop that has used its polls has timed out.
\<close>

type_synonym serial = "byte option list"

text \<open>The header loop of \<^verbatim>\<open>readPMS5003Frame\<close>, from \<^verbatim>\<open>state\<close> on; it returns the state.\<close>

fun seekHeader :: "nat \<Rightarrow> nat \<Rightarrow> serial \<Rightarrow> nat \<times> serial" where
  "seekHeader 0 state s = (state, s)"
| "seekHeader (Suc k) state [] = seekHeader k state []"
| "seekHeader (Suc k) state (None # s) = seekHeader k state s"
| "seekHeader (Suc k) state (Some b # s) =
     (if state = 0 \<and> b = 0x42 then seekHeader k 1 s
      else if state = 1 \<and> b = 0x4D then (2, s)
      else seekHeader k 0 s)"

text \<open>
  The inner loop of \<^verbatim>\<open>pmsReadN\<close>, \<^verbatim>\<open>while (pmsSerial.available() && got < n)\<close>, with \<open>m\<close>
  bytes still wanted.
\<close>

fun readAvail :: "nat \<Rightarrow> serial \<Rightarrow> byte list \<times> serial" where
  "readAvail 0 s = ([], s)"
| "readAvail (Suc m) [] = ([], [])"
| "readAvail (Suc m) (None # s) = ([], s)"
| "readAvail (Suc m) (Some b # s) = (case readAvail m s of (bs, r) \<Rightarrow> (b # bs, r))"

text \<open>
  The outer loop of \<^verbatim>\<open>pmsReadN\<close>; \<open>buf\<close> is what has been read, so \<^verbatim>\<open>got\<close> is its length.
  The result is \<^verbatim>\<open>got == n\<close>, the bytes and the rest of the line.
\<close>

fun pmsReadN_loop :: "nat \<Rightarrow> nat \<Rightarrow> byte list \<Rightarrow> serial \<Rightarrow> bool \<times> byte list \<times> serial" where
  "pmsReadN_loop 0 n buf s = (length buf = n, buf, s)"
| "pmsReadN_loop (Suc k) n buf s =
     (if length buf < n then
        (case readAvail (n - length buf) s of (bs, r) \<Rightarrow> pmsReadN_loop k n (buf @ bs) r)
      else (length buf = n, buf, s))"

definition pmsReadN :: "nat \<Rightarrow> nat \<Rightarrow> serial \<Rightarrow> bool \<times> byte list \<times> serial" where
  "pmsReadN n polls s = pmsReadN_loop polls n [] s"

text \<open>\<^verbatim>\<open>(uint16_t)hi << 8 | lo\<close>\<close>

definition be16 :: "byte \<Rightarrow> byte \<Rightarrow> u16" where
  "be16 hi lo = push_bit 8 (ucast hi) OR ucast lo"

text \<open>The lambda \<^verbatim>\<open>wordAt\<close> over the body.\<close>

definition wordAt :: "byte list \<Rightarrow> nat \<Rightarrow> u16" where
  "wordAt data idx = (let i = idx * 2 in be16 (data ! i) (data ! (i + 1)))"

text \<open>
  What one call of \<^verbatim>\<open>readPMS5003Frame\<close> meets: the line, the polls that each of its three
  loops is given, and the clock at the moment the sample is stamped.
\<close>

record pms_env =
  line :: serial
  seek_polls :: nat
  len_polls :: nat
  body_polls :: nat
  stamp :: u32

text \<open>Each \<^verbatim>\<open>return false\<close> of \<^verbatim>\<open>readPMS5003Frame\<close>, in the order of the source.\<close>

datatype frame_error =
    MarkerTimeout
  | LengthReadTimeout
  | LengthOutOfBounds
  | BodyReadTimeout
  | ChecksumMismatch

definition readPMS5003Frame :: "pms_env \<Rightarrow> PMSData \<Rightarrow> frame_error + PMSData" where
  "readPMS5003Frame env out =
     (case seekHeader (seek_polls env) 0 (line env) of (state, s1) \<Rightarrow>
      if state \<noteq> 2 then Inl MarkerTimeout
      else
        (case pmsReadN 2 (len_polls env) s1 of (ok1, lenb, s2) \<Rightarrow>
         if \<not> ok1 then Inl LengthReadTimeout
         else
           let frameLen = be16 (lenb ! 0) (lenb ! 1)
           in if frameLen < 28 \<or> frameLen > 64 then Inl LengthOutOfBounds
              else if unat frameLen > 64 then Inl LengthOutOfBounds
              else
                (case pmsReadN (unat frameLen) (body_polls env) s2 of (ok2, data, s3) \<Rightarrow>
                 if \<not> ok2 then Inl BodyReadTimeout
                 else
                   let sum0 = (0x42 + 0x4D + ucast (lenb ! 0) + ucast (lenb ! 1) :: u16);
                       sum = fold (\<lambda>b acc. acc + ucast b) (take (unat frameLen - 2) data) sum0;
                       chk = be16 (data ! (unat frameLen - 2)) (data ! (unat frameLen - 1))
                   in if sum \<noteq> chk then Inl ChecksumMismatch
                      else Inr (out\<lparr>pm1_cf1 := wordAt data 0,
                                    pm25_cf1 := wordAt data 1,
                                    pm10_cf1 := wordAt data 2,
                                    pm1_atm := wordAt data 3,
                                    pm25_atm := wordAt data 4,
                                    pm10_atm := wordAt data 5,
                                    ts_ms := stamp env,
                                    valid := True\<rparr>))))"

definition pollPMS5003 :: "pms_env \<Rightarrow> device \<Rightarrow> device" where
  "pollPMS5003 env d =
     (case readPMS5003Frame env PMSData_init of
        Inr tmp \<Rightarrow> d\<lparr>g_pms := tmp\<rparr>
      | Inl e \<Rightarrow> d)"

text \<open>
  The frame of the specification, for comparison with the decoder: the two markers, the
  length, the body; the length counts the body and lies between 28 and 64; the last two
  bytes of the body are the sum, modulo \<open>2 ^ 16\<close>, of every byte before them.
\<close>

definition be_value :: "byte \<Rightarrow> byte \<Rightarrow> nat" where
  "be_value hi lo = unat hi * 256 + unat lo"

definition well_formed_frame :: "byte \<Rightarrow> byte \<Rightarrow> byte list \<Rightarrow> bool" where
  "well_formed_frame hi lo body =
     (let L = be_value hi lo
      in 28 \<le> L \<and> L \<le> 64 \<and> length body = L \<and>
         be_value (body ! (L - 2)) (body ! (L - 1))
           = sum_list (map unat ([0x42, 0x4D, hi, lo] @ take (L - 2) body)) mod 65536)"

text \<open>
  How a sequence of bytes arrives on the line: each byte with the number of polls that
  find nothing before it.
\<close>

fun delayed :: "(nat \<times> byte) list \<Rightarrow> serial" where
  "delayed [] = []"
| "delayed ((w, b) # zs) = replicate w None @ Some b # delayed zs"

subsection \<open>Broker supervisor and publish gate\<close>

text \<open>
  \<open>net\<close> is the build flag \<^verbatim>\<open>ENABLE_NETWORK\<close>: each of the two functions has a networked
  body and a stub. \<open>connected\<close> is \<^verbatim>\<open>mqttClient.connected()\<close>, \<open>ok\<close> the result of
  \<^verbatim>\<open>mqttClient.connect\<close>, \<open>now\<close> is \<^verbatim>\<open>millis()\<close>.
\<close>

definition mqttEnsureConnected :: "bool \<Rightarrow> u32 \<Rightarrow> bool \<Rightarrow> bool \<Rightarrow> device \<Rightarrow> device" where
  "mqttEnsureConnected net now connected ok d =
     (if \<not> net then d
      else if \<not> haveMqttCreds (config d) then d
      else if connected then d
      else if now - lastMqttConnAttempt d < mqttBackoffMs d then d
      else
        let d1 = (if ok then d\<lparr>mqttBackoffMs := 0\<rparr>
                  else d\<lparr>mqttBackoffMs := min (mqttBackoffMs d + 5000) 60000\<rparr>)
        in d1\<lparr>lastMqttConnAttempt := now\<rparr>)"

definition mqttTopic :: "ESPConfig \<Rightarrow> byte list" where
  "mqttTopic c =
     bytes_of ''measurements/'' @ cstr (node_id c) @ bytes_of ''/'' @ cstr (first_sensor_id c)"

text \<open>
  What the gate hands on: the networked build publishes, retained, on a topic a payload
  that \<^verbatim>\<open>makeMeasurementPayload\<close> formats from three readings; the stub prints the three
  readings. The readings stand for the formatted text. The result of
  \<^verbatim>\<open>mqttClient.publish\<close> is only logged.
\<close>

datatype publish_intent =
    Publish "byte list" u16 u16 u16
  | WouldPublish u16 u16 u16

fun readings :: "publish_intent \<Rightarrow> u16 \<times> u16 \<times> u16" where
  "readings (Publish t a b c) = (a, b, c)"
| "readings (WouldPublish a b c) = (a, b, c)"

definition mqttMaybePublish :: "bool \<Rightarrow> u32 \<Rightarrow> bool \<Rightarrow> device \<Rightarrow> publish_intent option \<times> device" where
  "mqttMaybePublish net now connected d =
     (if net then
        (if \<not> haveMqttCreds (config d) \<or> \<not> connected \<or> \<not> valid (g_pms d) then (None, d)
         else if now - lastMqttPub d < 20000 then (None, d)
         else
           let d1 = d\<lparr>lastMqttPub := now\<rparr>
           in (Some (Publish (mqttTopic (config d1))
                       (pm1_atm (g_pms d1)) (pm25_atm (g_pms d1)) (pm10_atm (g_pms d1))), d1))
      else
        (if \<not> valid (g_pms d) \<or> registration_ok (config d) = 0 then (None, d)
         else (Some (WouldPublish (pm1_atm (g_pms d)) (pm25_atm (g_pms d)) (pm10_atm (g_pms d))), d)))"

text \<open>
  A run of the gate, as \<^verbatim>\<open>loop()\<close> drives it: before each call the sample, the record
  and the broker connection are whatever the rest of the loop has made of them. The
  time of a call is in milliseconds since boot, and \<^verbatim>\<open>millis()\<close> is that time modulo
  \<open>2 ^ 32\<close>. The run returns the intents with the times of their calls.
\<close>

record gate_call =
  at_ms :: nat
  broker_up :: bool
  held_sample :: PMSData
  held_config :: ESPConfig

fun publish_run :: "bool \<Rightarrow> device \<Rightarrow> gate_call list \<Rightarrow> (nat \<times> publish_intent) list" where
  "publish_run net d [] = []"
| "publish_run net d (c # cs) =
     (case mqttMaybePublish net (of_nat (at_ms c)) (broker_up c)
             (d\<lparr>g_pms := held_sample c, config := held_config c\<rparr>) of
        (None, d') \<Rightarrow> publish_run net d' cs
      | (Some i, d') \<Rightarrow> (at_ms c, i) # publish_run net d' cs)"

text \<open>
  Runs of the two supervisors while the connection is down and, for the broker, every
  connect fails: one call per clock reading. \<open>sta_due\<close> and \<open>mqtt_due\<close> say that each
  call of the run finds its interval elapsed, so that each of them is an attempt.
\<close>

fun sta_failures :: "u32 list \<Rightarrow> device \<Rightarrow> device" where
  "sta_failures [] d = d"
| "sta_failures (t # ts) d = sta_failures ts (ensureStaConnected False t d)"

fun sta_due :: "u32 list \<Rightarrow> device \<Rightarrow> bool" where
  "sta_due [] d = True"
| "sta_due (t # ts) d =
     (\<not> (t - lastStaAttempt d < staBackoffMs d) \<and> sta_due ts (ensureStaConnected False t d))"

fun mqtt_failures :: "u32 list \<Rightarrow> device \<Rightarrow> device" where
  "mqtt_failures [] d = d"
| "mqtt_failures (t # ts) d = mqtt_failures ts (mqttEnsureConnected True t False False d)"

fun mqtt_due :: "u32 list \<Rightarrow> device \<Rightarrow> bool" where
  "mqtt_due [] d = True"
| "mqtt_due (t # ts) d =
     (\<not> (t - lastMqttConnAttempt d < mqttBackoffMs d)
      \<and> mqtt_due ts (mqttEnsureConnected True t False False d))"


subsection \<open>Example inputs\<close>

text \<open>
  The globals at power-on over a given persisted image, a magic constant, an erased
  image (every byte \<open>0xFF\<close>), a first submission and a later one, and the device after the
  first submission in the stub build.
\<close>

definition power_on :: "ESPConfig \<Rightarrow> device" where
  "power_on img =
     \<lparr>config = zeroed_config, g_pms = PMSData_init,
      lastStaAttempt = 0, staBackoffMs = 0,
      lastMqttConnAttempt = 0, mqttBackoffMs = 0, lastMqttPub = 0,
      eeprom_data = zeroed_config, eeprom_flash = img, trace = []\<rparr>"

definition example_magic :: u32 where
  "example_magic = 0xC0DE0001"

definition erased_config :: ESPConfig where
  "erased_config =
     \<lparr>magic = 0xFFFFFFFF,
      wifi_ssid = replicate MAX_LEN 0xFF, wifi_pass = replicate MAX_LEN 0xFF,
      user_email = replicate MAX_LEN 0xFF, device_name = replicate MAX_LEN 0xFF,
      one_time_key = replicate MAX_LEN 0xFF,
      node_id = replicate UUID_LEN 0xFF, mqtt_host = replicate MAX_LEN 0xFF, mqtt_port = 0xFFFF,
      mqtt_username = replicate MAX_LEN 0xFF, mqtt_password = replicate MAX_LEN 0xFF,
      first_sensor_id = replicate UUID_LEN 0xFF, first_sensor_sn = replicate MAX_LEN 0xFF,
      registration_ok = 0xFF\<rparr>"

definition example_request :: save_request where
  "example_request =
     \<lparr>is_post = True,
      args = [''wifi_ssid'' \<mapsto> bytes_of ''home'', ''wifi_pass'' \<mapsto> bytes_of ''secret'',
              ''one_time_key'' \<mapsto> bytes_of ''K1'']\<rparr>"

definition example_resubmission :: save_request where
  "example_resubmission =
     \<lparr>is_post = True,
      args = [''wifi_ssid'' \<mapsto> bytes_of ''office'', ''wifi_pass'' \<mapsto> bytes_of ''other'']\<rparr>"

definition example_env :: save_env where
  "example_env =
     \<lparr>save_commit = CommitOK, sta_connected = False, sta_now = 1000,
      reg_joined = True, reg_commit = CommitOK\<rparr>"

definition registered_device :: device where
  "registered_device =
     snd (handleSave False example_magic example_request example_env (power_on zeroed_config))"

text \<open>
  A frame of length 28 whose readings are 258, 2, 3, 4, 5 and 6, the same frame with one
  byte of the body changed, and what a call of the decoder meets when a given line is
  all that arrives.
\<close>

definition example_body :: "byte list" where
  "example_body =
     [1, 2, 0, 2, 0, 3, 0, 4, 0, 5, 0, 6,
      0, 0, 0, 0, 0, 0, 0, 0, 0, 0, 0, 0, 0, 0,
      0, 0xC2]"

definition example_frame :: "byte list" where
  "example_frame = [0x42, 0x4D, 0, 28] @ example_body"

definition corrupted_frame :: "byte list" where
  "corrupted_frame = example_frame[9 := 7]"

definition example_pms_env :: "byte list \<Rightarrow> pms_env" where
  "example_pms_env bs =
     \<lparr>line = map Some bs, seek_polls = 100, len_polls = 100, body_polls = 100, stamp = 5000\<rparr>"

definition example_sample :: PMSData where
  "example_sample =
     \<lparr>pm1_cf1 = 258, pm25_cf1 = 2, pm10_cf1 = 3, pm1_atm = 4, pm25_atm = 5, pm10_atm = 6,
      ts_ms = 5000, valid = True\<rparr>"

text \<open>A device that holds station credentials and has made no attempt yet.\<close>

definition sta_device :: device where
  "sta_device =
     (power_on zeroed_config)\<lparr>config := copy_args (args example_request) zeroed_config\<rparr>"

text \<open>The registered device once it holds a valid sample.\<close>

definition sampled_device :: device where
  "sampled_device = pollPMS5003 (example_pms_env example_frame) registered_device"

text \<open>Calls of the publish gate on the registered device holding the example sample.\<close>

definition example_call :: "nat \<Rightarrow> bool \<Rightarrow> gate_call" where
  "example_call t up =
     \<lparr>at_ms = t, broker_up = up, held_sample = example_sample,
      held_config = config registered_device\<rparr>"

definition example_calls :: "gate_call list" where
  "example_calls =
     [example_call 1000 True, example_call 20000 True, example_call 25000 True,
      example_call 41000 True]"


text \<open>
  The example frame arriving late: after a wait and two bytes that are not the first
  marker, with waits before the header, inside the length and inside the body, and one
  more byte after it.
\<close>

definition example_arrival :: "(nat \<times> byte) list" where
  "example_arrival = zip ([0, 0, 0, 0, 0, 3] @ replicate 22 0) example_body"

definition example_line :: serial where
  "example_line =
     [None, Some 0x07, Some 0x4D]
     @ delayed ((1, 0x42) # (0, 0x4D) # (2, 0) # (0, 28) # example_arrival)
     @ [Some 0x99]"

definition paused_env :: pms_env where
  "paused_env =
     \<lparr>line = example_line, seek_polls = 100, len_polls = 100, body_polls = 100, stamp = 5000\<rparr>"

text \<open>The surroundings of a submission in which the join inside the registration fails.\<close>

definition no_join_env :: save_env where
  "no_join_env =
     \<lparr>save_commit = CommitOK, sta_connected = False, sta_now = 1000,
      reg_joined = False, reg_commit = CommitOK\<rparr>"

section \<open>Properties\<close>

subsection \<open>copyString\<close>

lemma copyString_n_min:
  assumes "0 < M" and "M < 2 ^ 32"
  shows "copyString_n L M = min L (M - 1)"
proof -
  from assms have "(M + 2 ^ 32 - 1) mod 2 ^ 32 = M - 1"
    by (simp add: mod_if)
  with assms show ?thesis
    by (auto simp: copyString_n_def min_def)
qed

text \<open>
  C9. Copying a text of length \<open>L\<close> into a field of capacity \<open>M\<close> (a field has at least
  one byte, and its capacity is a \<^verbatim>\<open>size_t\<close>) stores the first \<open>min L (M - 1)\<close> characters
  of the text, then a NUL; the memory keeps its size and every byte after the \<open>M\<close> bytes of
  the field is as it was.
\<close>

theorem copyString_truncates:
  assumes "0 < M" and "M < 2 ^ 32" and "M \<le> length dst"
  shows "take (min (length src) (M - 1)) (copyString src dst M)
           = take (min (length src) (M - 1)) src
       \<and> copyString src dst M ! (min (length src) (M - 1)) = 0
       \<and> length (copyString src dst M) = length dst
       \<and> drop M (copyString src dst M) = drop M dst"
proof -
  let ?n = "min (length src) (M - 1)"
  have n: "copyString_n (length src) M = ?n"
    using assms by (rule_tac copyString_n_min)
  have lt: "?n < M" "?n < length dst" "?n \<le> length src"
    using assms by auto
  have len: "length (memcpy dst (src @ [0]) ?n) = length dst"
    using lt by (simp add: memcpy_def)
  have eq: "copyString src dst M = (memcpy dst (src @ [0]) ?n)[?n := 0]"
    using lt len by (simp add: copyString_def n store_at_def Let_def)
  have "take ?n (copyString src dst M) = take ?n src"
    using lt by (simp add: eq memcpy_def)
  moreover have "copyString src dst M ! ?n = 0"
    using lt len by (simp add: eq)
  moreover have "length (copyString src dst M) = length dst"
    using len by (simp add: eq)
  moreover have "drop M (copyString src dst M) = drop M dst"
  proof -
    have "drop M ((memcpy dst (src @ [0]) ?n)[?n := 0]) = drop M (memcpy dst (src @ [0]) ?n)"
      using lt by simp
    also have "\<dots> = drop M dst"
      using lt assms by (simp add: memcpy_def min_absorb2)
    finally show ?thesis by (simp add: eq)
  qed
  ultimately show ?thesis by simp
qed

theorem copyString_truncates_witness:
  "(0::nat) < 4 \<and> (4::nat) < 2 ^ 32 \<and> 4 \<le> length [1, 2, 3, 4, 5, 6 :: byte]
   \<and> copyString [7, 8, 9, 10, 11] [1, 2, 3, 4, 5, 6] 4 = [7, 8, 9, 0, 5, 6]
   \<and> drop 4 (copyString [7, 8, 9, 10, 11] [1, 2, 3, 4, 5, 6] 4) = drop 4 [1, 2, 3, 4, 5, 6]"
proof -
  have h: "(0::nat) < 4" "(4::nat) < 2 ^ 32" "4 \<le> length [1, 2, 3, 4, 5, 6 :: byte]"
    by simp_all
  show ?thesis
    using h copyString_truncates [OF h, of "[7, 8, 9, 10, 11]"]
    by (simp add: copyString_def copyString_n_def memcpy_def store_at_def)
qed

subsection \<open>Loading and resetting the configuration\<close>

lemma loadConfig_mismatch:
  assumes "magic (eeprom_flash d) \<noteq> M"
  shows "loadConfig M cr d =
     snd (EEPROM_commit cr (d\<lparr>config := zeroed_config\<lparr>magic := M\<rparr>,
            eeprom_data := zeroed_config\<lparr>magic := M\<rparr>,
            trace := trace d @ [EepromPut (zeroed_config\<lparr>magic := M\<rparr>)]\<rparr>))"
  using assms by (simp add: loadConfig_def EEPROM_begin_def EEPROM_get_def EEPROM_put_def Let_def)

lemma loadConfig_match:
  assumes "magic (eeprom_flash d) = M"
  shows "loadConfig M cr d = d\<lparr>eeprom_data := eeprom_flash d, config := eeprom_flash d\<rparr>"
  using assms by (simp add: loadConfig_def EEPROM_begin_def EEPROM_get_def Let_def)

text \<open>
  C8. Over an image whose magic differs from the constant, \<open>loadConfig\<close> leaves the zeroed
  record with the magic set in memory, and writes and commits exactly that record; when
  the medium accepts the commit, the image is that record, and loading again (whatever a
  further commit would do) changes neither the record, nor the image, nor the log of
  writes. Over an image whose magic matches, \<open>loadConfig\<close> returns the image as it is and
  writes nothing.
\<close>

theorem loadConfig_recovery:
  "(magic (eeprom_flash d) \<noteq> M \<longrightarrow>
      config (loadConfig M cr d) = zeroed_config\<lparr>magic := M\<rparr>
    \<and> trace (loadConfig M cr d) =
        trace d @ [EepromPut (zeroed_config\<lparr>magic := M\<rparr>),
                   EepromCommit (cr = CommitOK) (eeprom_flash (loadConfig M cr d))]
    \<and> (cr = CommitOK \<longrightarrow>
         eeprom_flash (loadConfig M cr d) = zeroed_config\<lparr>magic := M\<rparr>
       \<and> (\<forall>cr'. config (loadConfig M cr' (loadConfig M cr d)) = config (loadConfig M cr d)
              \<and> eeprom_flash (loadConfig M cr' (loadConfig M cr d))
                  = eeprom_flash (loadConfig M cr d)
              \<and> trace (loadConfig M cr' (loadConfig M cr d)) = trace (loadConfig M cr d))))
 \<and> (magic (eeprom_flash d) = M \<longrightarrow>
      config (loadConfig M cr d) = eeprom_flash d
    \<and> eeprom_flash (loadConfig M cr d) = eeprom_flash d
    \<and> trace (loadConfig M cr d) = trace d)"
proof (cases "magic (eeprom_flash d) = M")
  case True
  then show ?thesis by (simp add: loadConfig_match)
next
  case False
  show ?thesis
  proof (cases cr)
    case CommitOK
    have 1: "loadConfig M CommitOK d = d\<lparr>config := zeroed_config\<lparr>magic := M\<rparr>,
            eeprom_data := zeroed_config\<lparr>magic := M\<rparr>,
            eeprom_flash := zeroed_config\<lparr>magic := M\<rparr>,
            trace := trace d @ [EepromPut (zeroed_config\<lparr>magic := M\<rparr>),
               EepromCommit True (zeroed_config\<lparr>magic := M\<rparr>)]\<rparr>"
      using False by (simp add: loadConfig_mismatch)
    show ?thesis using False unfolding CommitOK 1
      by (simp add: loadConfig_match)
  next
    case (CommitFailed img)
    then show ?thesis using False by (simp add: loadConfig_mismatch)
  qed
qed

theorem loadConfig_recovery_witness:
  "magic (eeprom_flash (power_on erased_config)) \<noteq> example_magic
 \<and> config (loadConfig example_magic CommitOK (power_on erased_config))
      = zeroed_config\<lparr>magic := example_magic\<rparr>
 \<and> eeprom_flash (loadConfig example_magic CommitOK (power_on erased_config))
      = zeroed_config\<lparr>magic := example_magic\<rparr>
 \<and> config (loadConfig example_magic CommitOK
              (loadConfig example_magic CommitOK (power_on erased_config)))
      = zeroed_config\<lparr>magic := example_magic\<rparr>
 \<and> magic (eeprom_flash registered_device) = example_magic
 \<and> config (loadConfig example_magic CommitOK registered_device) = eeprom_flash registered_device
 \<and> trace (loadConfig example_magic CommitOK registered_device) = trace registered_device"
proof -
  have h1: "magic (eeprom_flash (power_on erased_config)) \<noteq> example_magic"
    by code_simp
  have h2: "magic (eeprom_flash registered_device) = example_magic"
    by code_simp
  show ?thesis
    using h1 h2
      loadConfig_recovery [of "power_on erased_config" example_magic CommitOK]
      loadConfig_recovery [of registered_device example_magic CommitOK]
    by simp
qed







text \<open>
  What \<open>clearConfig\<close> alone leaves, before the route reloads: the zeroed record, magic
  included.
\<close>

lemma clearConfig_zeroes_magic:
  "config (clearConfig cr d) = zeroed_config \<and> magic (config (clearConfig cr d)) = 0"
  by (cases cr) (simp_all add: clearConfig_def EEPROM_put_def Let_def zeroed_config_def)

subsection \<open>Registration and the save route\<close>

text \<open>
  C10. With an empty one-time key the registration returns failure and the device is
  exactly as before: no field of the record changes, the flag is not set, and nothing is
  written or committed.
\<close>

theorem performRegistration_empty_key:
  "length (cstr (one_time_key (config d))) = 0 \<Longrightarrow>
     performRegistration net M joined cr d = (False, d)"
  by (simp add: performRegistration_def)

theorem performRegistration_empty_key_witness:
  "length (cstr (one_time_key (config (power_on zeroed_config)))) = 0
 \<and> performRegistration False example_magic True CommitOK (power_on zeroed_config)
      = (False, power_on zeroed_config)"
proof -
  have h: "length (cstr (one_time_key (config (power_on zeroed_config)))) = 0"
    by code_simp
  from performRegistration_empty_key [OF h] h show ?thesis
    by blast
qed

lemma cstr_store_at_0 [simp]: "cstr (store_at buf 0 0) = []"
  by (cases buf) (simp_all add: cstr_def store_at_def)

lemma trace_saveConfig:
  "trace (saveConfig M cr d) =
     trace d @ [EepromPut ((config d)\<lparr>magic := M\<rparr>),
                EepromCommit (cr = CommitOK)
                  (case cr of CommitOK \<Rightarrow> (config d)\<lparr>magic := M\<rparr> | CommitFailed img \<Rightarrow> img)]"
  by (cases cr) (simp_all add: saveConfig_def EEPROM_put_def Let_def)

lemma trace_performRegistration:
  "\<exists>ys. trace (snd (performRegistration net M j cr d)) = trace d @ ys"
  by (auto simp: performRegistration_def connectSTA_def trace_saveConfig Let_def
      split: prod.splits bool.splits)

lemma saveConfig_eq:
  "saveConfig M cr d =
     d\<lparr>config := (config d)\<lparr>magic := M\<rparr>, eeprom_data := (config d)\<lparr>magic := M\<rparr>,
       eeprom_flash := (case cr of CommitOK \<Rightarrow> (config d)\<lparr>magic := M\<rparr> | CommitFailed i \<Rightarrow> i),
       trace := trace d @ [EepromPut ((config d)\<lparr>magic := M\<rparr>),
                 EepromCommit (cr = CommitOK)
                   (case cr of CommitOK \<Rightarrow> (config d)\<lparr>magic := M\<rparr> | CommitFailed i \<Rightarrow> i)]\<rparr>"
  by (cases cr) (simp_all add: saveConfig_def EEPROM_put_def Let_def)

lemma ensureStaConnected_frame:
  "config (ensureStaConnected c n d) = config d
 \<and> eeprom_data (ensureStaConnected c n d) = eeprom_data d
 \<and> eeprom_flash (ensureStaConnected c n d) = eeprom_flash d
 \<and> (\<exists>ys. trace (ensureStaConnected c n d) = trace d @ ys \<and> RegistrationExchange \<notin> set ys)"
  by (simp add: ensureStaConnected_def Let_def)

lemma performRegistration_config:
  "config (snd (performRegistration net M j cr d))
     = (if fst (performRegistration net M j cr d)
        then ((if net then config d else stub_reply (config d))\<lparr>registration_ok := 1\<rparr>)\<lparr>magic := M\<rparr>
        else config d)"
  by (cases j) (simp_all add: performRegistration_def connectSTA_def saveConfig_eq Let_def
      split: prod.splits)

lemma handleSave_unfold:
  assumes "is_post req"
  shows "handleSave net M req env d =
    (let r = (reset_derived (copy_args (args req) (config d)))\<lparr>magic := M\<rparr>;
         img = (case save_commit env of CommitOK \<Rightarrow> r | CommitFailed i \<Rightarrow> i);
         d5 = ensureStaConnected (sta_connected env) (sta_now env)
                (d\<lparr>config := r, eeprom_data := r, eeprom_flash := img,
                   lastStaAttempt := 0, staBackoffMs := 0,
                   trace := trace d @ [EepromPut r, EepromCommit (save_commit env = CommitOK) img,
                                       WifiDisconnect]\<rparr>);
         reg = performRegistration net M (reg_joined env) (reg_commit env) d5
     in (SavedPage (fst reg), snd reg))"
  using assms
  by (simp add: handleSave_def saveConfig_eq Let_def split: prod.splits commit_result.splits)

text \<open>
  C2. A POST to the save route, on any device. The route writes and commits one record
  \<open>r\<close>, in which the flag and the port are zero, every derived text is empty and the
  user-entered fields are those of the request where it carries them. That write and
  commit are the first things the route does to the outside. The registration is then
  called on a device whose record in memory is \<open>r\<close>, whose EEPROM buffer is \<open>r\<close> and whose
  persisted image is \<open>r\<close> when the medium accepted the commit; no registration exchange
  has happened before that call. If the registration fails the record in memory stays
  \<open>r\<close>; if it succeeds the record is \<open>r\<close> with the reply filled in and the flag set.
\<close>

theorem handleSave_resets_derived:
  assumes "is_post req"
  shows "let r = (reset_derived (copy_args (args req) (config d)))\<lparr>magic := M\<rparr>;
             img = (case save_commit env of CommitOK \<Rightarrow> r | CommitFailed i \<Rightarrow> i);
             d5 = ensureStaConnected (sta_connected env) (sta_now env)
                    (d\<lparr>config := r, eeprom_data := r, eeprom_flash := img,
                       lastStaAttempt := 0, staBackoffMs := 0,
                       trace := trace d @ [EepromPut r,
                                  EepromCommit (save_commit env = CommitOK) img, WifiDisconnect]\<rparr>);
             reg = performRegistration net M (reg_joined env) (reg_commit env) d5;
             d' = snd (handleSave net M req env d)
         in handleSave net M req env d = (SavedPage (fst reg), snd reg)
          \<and> config d5 = r \<and> eeprom_data d5 = r \<and> eeprom_flash d5 = img
          \<and> RegistrationExchange \<notin> set (drop (length (trace d)) (trace d5))
          \<and> take (length (trace d) + 2) (trace d')
              = trace d @ [EepromPut r, EepromCommit (save_commit env = CommitOK) img]
          \<and> (fst (handleSave net M req env d) = SavedPage False \<longrightarrow> config d' = r)
          \<and> (fst (handleSave net M req env d) = SavedPage True \<longrightarrow>
                config d' = ((if net then r else stub_reply r)\<lparr>registration_ok := 1\<rparr>)\<lparr>magic := M\<rparr>)
          \<and> registration_ok r = 0 \<and> mqtt_port r = 0
          \<and> cstr (node_id r) = [] \<and> cstr (mqtt_host r) = []
          \<and> cstr (mqtt_username r) = [] \<and> cstr (mqtt_password r) = []
          \<and> cstr (first_sensor_id r) = [] \<and> cstr (first_sensor_sn r) = []
          \<and> wifi_ssid r = (case args req ''wifi_ssid'' of None \<Rightarrow> wifi_ssid (config d)
                             | Some v \<Rightarrow> copyString v (wifi_ssid (config d)) MAX_LEN)
          \<and> wifi_pass r = (case args req ''wifi_pass'' of None \<Rightarrow> wifi_pass (config d)
                             | Some v \<Rightarrow> copyString v (wifi_pass (config d)) MAX_LEN)
          \<and> user_email r = (case args req ''user_email'' of None \<Rightarrow> user_email (config d)
                             | Some v \<Rightarrow> copyString v (user_email (config d)) MAX_LEN)
          \<and> device_name r = (case args req ''device_name'' of None \<Rightarrow> device_name (config d)
                             | Some v \<Rightarrow> copyString v (device_name (config d)) MAX_LEN)
          \<and> one_time_key r = (case args req ''one_time_key'' of None \<Rightarrow> one_time_key (config d)
                             | Some v \<Rightarrow> copyString v (one_time_key (config d)) MAX_LEN)"
proof -
  define r where "r = (reset_derived (copy_args (args req) (config d)))\<lparr>magic := M\<rparr>"
  define img where "img = (case save_commit env of CommitOK \<Rightarrow> r | CommitFailed i \<Rightarrow> i)"
  define d4 where "d4 = d\<lparr>config := r, eeprom_data := r, eeprom_flash := img,
                       lastStaAttempt := 0, staBackoffMs := 0,
                       trace := trace d @ [EepromPut r,
                                  EepromCommit (save_commit env = CommitOK) img, WifiDisconnect]\<rparr>"
  define d5 where "d5 = ensureStaConnected (sta_connected env) (sta_now env) d4"
  define reg where "reg = performRegistration net M (reg_joined env) (reg_commit env) d5"
  define d' where "d' = snd (handleSave net M req env d)"
  have hs: "handleSave net M req env d = (SavedPage (fst reg), snd reg)"
    unfolding reg_def d5_def d4_def img_def r_def
    by (rule handleSave_unfold [OF assms, unfolded Let_def])
  have d5: "config d5 = r" "eeprom_data d5 = r" "eeprom_flash d5 = img"
    using ensureStaConnected_frame [of "sta_connected env" "sta_now env" d4]
    by (simp_all add: d5_def d4_def)
  obtain ys where ys: "trace d5 = trace d4 @ ys" "RegistrationExchange \<notin> set ys"
    using ensureStaConnected_frame [of "sta_connected env" "sta_now env" d4]
    unfolding d5_def by blast
  have noreg: "RegistrationExchange \<notin> set (drop (length (trace d)) (trace d5))"
    using ys by (simp add: d4_def)
  obtain zs where zs: "trace (snd reg) = trace d5 @ zs"
    using trace_performRegistration unfolding reg_def by blast
  have tk: "take (length (trace d) + 2) (trace d')
              = trace d @ [EepromPut r, EepromCommit (save_commit env = CommitOK) img]"
    by (simp add: d'_def hs zs ys d4_def)
  have cfg: "config d' = (if fst reg
        then ((if net then r else stub_reply r)\<lparr>registration_ok := 1\<rparr>)\<lparr>magic := M\<rparr>
        else r)"
    using performRegistration_config [of net M "reg_joined env" "reg_commit env" d5]
    by (simp add: d'_def hs reg_def [symmetric] d5)
  have fails: "config d' = r" if "fst (handleSave net M req env d) = SavedPage False"
    using that cfg by (simp add: hs)
  have succeeds: "config d' = ((if net then r else stub_reply r)\<lparr>registration_ok := 1\<rparr>)\<lparr>magic := M\<rparr>"
    if "fst (handleSave net M req env d) = SavedPage True"
    using that cfg by (simp add: hs)
  have derived: "registration_ok r = 0" "mqtt_port r = 0"
      "cstr (node_id r) = []" "cstr (mqtt_host r) = []"
      "cstr (mqtt_username r) = []" "cstr (mqtt_password r) = []"
      "cstr (first_sensor_id r) = []" "cstr (first_sensor_sn r) = []"
    by (simp_all add: r_def reset_derived_def)
  have user: "wifi_ssid r = (case args req ''wifi_ssid'' of None \<Rightarrow> wifi_ssid (config d)
                             | Some v \<Rightarrow> copyString v (wifi_ssid (config d)) MAX_LEN)"
     "wifi_pass r = (case args req ''wifi_pass'' of None \<Rightarrow> wifi_pass (config d)
                             | Some v \<Rightarrow> copyString v (wifi_pass (config d)) MAX_LEN)"
     "user_email r = (case args req ''user_email'' of None \<Rightarrow> user_email (config d)
                             | Some v \<Rightarrow> copyString v (user_email (config d)) MAX_LEN)"
     "device_name r = (case args req ''device_name'' of None \<Rightarrow> device_name (config d)
                             | Some v \<Rightarrow> copyString v (device_name (config d)) MAX_LEN)"
     "one_time_key r = (case args req ''one_time_key'' of None \<Rightarrow> one_time_key (config d)
                             | Some v \<Rightarrow> copyString v (one_time_key (config d)) MAX_LEN)"
    by (simp_all add: r_def reset_derived_def copy_args_def Let_def split: option.splits)
  show ?thesis
    unfolding Let_def
    unfolding r_def [symmetric] img_def [symmetric] d4_def [symmetric] d5_def [symmetric]
      reg_def [symmetric] d'_def [symmetric]
    using hs d5 noreg tk fails succeeds derived user
    by (intro conjI impI) assumption+
qed

theorem handleSave_resets_derived_witness:
  "is_post example_resubmission
 \<and> registration_ok (config registered_device) = 1
 \<and> haveMqttCreds (config registered_device)
 \<and> fst (handleSave True example_magic example_resubmission no_join_env registered_device)
      = SavedPage False
 \<and> registration_ok (config (snd (handleSave True example_magic example_resubmission
        no_join_env registered_device))) = 0
 \<and> cstr (node_id (config (snd (handleSave True example_magic example_resubmission
        no_join_env registered_device)))) = []
 \<and> cstr (wifi_ssid (config (snd (handleSave True example_magic example_resubmission
        no_join_env registered_device)))) = bytes_of ''office''
 \<and> fst (handleSave False example_magic example_resubmission example_env registered_device)
      = SavedPage True
 \<and> registration_ok (config (snd (handleSave False example_magic example_resubmission
        example_env registered_device))) = 1
 \<and> cstr (wifi_ssid (config (snd (handleSave False example_magic example_resubmission
        example_env registered_device)))) = bytes_of ''office''"
proof -
  have h: "is_post example_resubmission"
    by (simp add: example_resubmission_def)
  have pre: "registration_ok (config registered_device) = 1"
      "haveMqttCreds (config registered_device)"
    by code_simp+
  have f: "fst (handleSave True example_magic example_resubmission no_join_env registered_device)
      = SavedPage False"
    by code_simp
  have s: "fst (handleSave False example_magic example_resubmission example_env registered_device)
      = SavedPage True"
    by code_simp
  have a: "args example_resubmission ''wifi_ssid'' = Some (bytes_of ''office'')"
    by (simp add: example_resubmission_def)
  have ssid: "cstr (copyString (bytes_of ''office'') (wifi_ssid (config registered_device)) MAX_LEN)
      = bytes_of ''office''"
    by code_simp
  let ?r = "(reset_derived (copy_args (args example_resubmission)
                (config registered_device)))\<lparr>magic := example_magic\<rparr>"
  note i1 = handleSave_resets_derived [OF h, where d = registered_device and M = example_magic
      and net = True and env = no_join_env, unfolded Let_def if_True]
  note i2 = handleSave_resets_derived [OF h, where d = registered_device and M = example_magic
      and net = False and env = example_env, unfolded Let_def if_False]
  from i1 f have c1: "config (snd (handleSave True example_magic example_resubmission
        no_join_env registered_device)) = ?r"
    by blast
  from i1 have r: "registration_ok ?r = 0" "cstr (node_id ?r) = []"
      "wifi_ssid ?r = (case args example_resubmission ''wifi_ssid'' of
          None \<Rightarrow> wifi_ssid (config registered_device)
        | Some v \<Rightarrow> copyString v (wifi_ssid (config registered_device)) MAX_LEN)"
    by blast+
  have r3: "cstr (wifi_ssid ?r) = bytes_of ''office''"
    unfolding r(3) by (simp add: a ssid)
  from i2 s have c2: "config (snd (handleSave False example_magic example_resubmission
        example_env registered_device)) = ((stub_reply ?r)\<lparr>registration_ok := 1\<rparr>)\<lparr>magic := example_magic\<rparr>"
    by blast
  have w2: "wifi_ssid (stub_reply ?r) = wifi_ssid ?r"
    by (simp add: stub_reply_def Let_def)
  have e1: "registration_ok (config (snd (handleSave True example_magic example_resubmission
        no_join_env registered_device))) = 0"
    "cstr (node_id (config (snd (handleSave True example_magic example_resubmission
        no_join_env registered_device)))) = []"
    "cstr (wifi_ssid (config (snd (handleSave True example_magic example_resubmission
        no_join_env registered_device)))) = bytes_of ''office''"
    unfolding c1 using r r3 by simp_all
  have e2: "registration_ok (config (snd (handleSave False example_magic example_resubmission
        example_env registered_device))) = 1"
    "cstr (wifi_ssid (config (snd (handleSave False example_magic example_resubmission
        example_env registered_device)))) = bytes_of ''office''"
    unfolding c2 using r3 w2 by simp_all
  from h pre f e1 s e2 show ?thesis
    by blast
qed

subsection \<open>The frame decoder\<close>

lemma be16_add: "be16 hi lo = push_bit 8 (ucast hi) + ucast lo"
  unfolding be16_def
  by (rule disjunctive_add [symmetric]) (auto simp: bit_simps dest: bit_imp_le_length)

lemma unat_be16: "unat (be16 hi lo) = be_value hi lo"
proof -
  have e: "be16 hi lo = (of_nat (unat hi * 256 + unat lo) :: u16)"
    by (simp add: be16_add push_bit_eq_mult)
  have b: "unat hi < 256" "unat lo < 256"
    using unsigned_less [of hi, where ?'a = nat] unsigned_less [of lo, where ?'a = nat]
    by simp_all
  have "unat (be16 hi lo) = (unat hi * 256 + unat lo) mod 65536"
    unfolding e by (simp only: unat_of_nat len_bit0 len_num1 mult_1_right) simp
  also have "\<dots> = unat hi * 256 + unat lo"
    using b by simp
  finally show ?thesis
    by (simp add: be_value_def)
qed

lemma seekHeader_markers:
  "seekHeader (Suc (Suc k)) 0 (Some 0x42 # Some 0x4D # s) = (2, s)"
  by simp

text \<open>After a repeated first marker the scan is back at its start, past the second marker.\<close>

lemma seekHeader_repeated_first_marker:
  "seekHeader (Suc (Suc (Suc k))) 0 (Some 0x42 # Some 0x42 # Some 0x4D # s) = seekHeader k 0 s"
  by simp

lemma seekHeader_skip:
  "Some 0x42 \<notin> set pre \<Longrightarrow> seekHeader (length pre + k) 0 (pre @ s) = seekHeader k 0 s"
proof (induction pre)
  case Nil
  then show ?case by simp
next
  case (Cons x pre)
  then show ?case by (cases x) simp_all
qed

lemma seekHeader_wait:
  "seekHeader (w + k) st (replicate w None @ s) = seekHeader k st s"
  by (induction w) simp_all

lemma seekHeader_header:
  assumes "Some 0x42 \<notin> set pre" and "length pre + w0 + w1 + 2 \<le> polls"
  shows "seekHeader polls 0 (pre @ delayed ((w0, 0x42) # (w1, 0x4D) # zs) @ s)
           = (2, delayed zs @ s)"
proof -
  define k where "k = polls - (length pre + w0 + w1 + 2)"
  have k: "polls = length pre + (w0 + Suc (w1 + Suc k))"
    using assms(2) by (simp add: k_def)
  have "seekHeader polls 0 (pre @ delayed ((w0, 0x42) # (w1, 0x4D) # zs) @ s)
      = seekHeader (w0 + Suc (w1 + Suc k)) 0 (delayed ((w0, 0x42) # (w1, 0x4D) # zs) @ s)"
    unfolding k using assms(1) by (rule seekHeader_skip)
  also have "\<dots> = seekHeader (Suc (w1 + Suc k)) 0 (Some 0x42 # delayed ((w1, 0x4D) # zs) @ s)"
    using seekHeader_wait [of w0 "Suc (w1 + Suc k)" 0] by simp
  also have "\<dots> = seekHeader (w1 + Suc k) 1 (delayed ((w1, 0x4D) # zs) @ s)"
    by simp
  also have "\<dots> = seekHeader (Suc k) 1 (Some 0x4D # delayed zs @ s)"
    using seekHeader_wait [of w1 "Suc k" 1] by simp
  also have "\<dots> = (2, delayed zs @ s)"
    by simp
  finally show ?thesis .
qed

lemma pmsReadN_loop_done:
  "length buf = n \<Longrightarrow> pmsReadN_loop polls n buf s = (True, buf, s)"
  by (cases polls) simp_all

lemma pmsReadN_loop_wait:
  "length buf < n \<Longrightarrow> pmsReadN_loop (Suc k) n buf (None # s) = pmsReadN_loop k n buf s"
  by (cases "n - length buf") simp_all

lemma pmsReadN_loop_byte:
  assumes "length buf < n"
  shows "pmsReadN_loop (Suc k) n buf (Some b # s) = pmsReadN_loop (Suc k) n (buf @ [b]) s"
proof -
  obtain m where m: "n - length buf = Suc m"
    using assms by (cases "n - length buf") simp_all
  obtain bs r where r: "readAvail m s = (bs, r)"
    by (cases "readAvail m s")
  have lhs: "pmsReadN_loop (Suc k) n buf (Some b # s) = pmsReadN_loop k n (buf @ b # bs) r"
    using assms by (simp add: m r)
  show ?thesis
  proof (cases m)
    case 0
    then have "length (buf @ [b]) = n" "bs = []" "r = s"
      using m r by simp_all
    then show ?thesis
      unfolding lhs by (simp add: pmsReadN_loop_done)
  next
    case (Suc m')
    then have "length (buf @ [b]) < n" "n - length (buf @ [b]) = m"
      using m by simp_all
    then show ?thesis
      unfolding lhs by (simp add: r)
  qed
qed

lemma pmsReadN_loop_waits:
  "length buf < n \<Longrightarrow>
     pmsReadN_loop (w + k) n buf (replicate w None @ s) = pmsReadN_loop k n buf s"
  by (induction w) (simp_all add: pmsReadN_loop_wait del: pmsReadN_loop.simps)

lemma pmsReadN_loop_delayed:
  assumes "length buf + length zs = n" and "sum_list (map fst zs) < polls"
  shows "pmsReadN_loop polls n buf (delayed zs @ r) = (True, buf @ map snd zs, r)"
  using assms
proof (induction zs arbitrary: buf polls)
  case Nil
  then show ?case by (simp add: pmsReadN_loop_done)
next
  case (Cons z zs)
  obtain w b where z: "z = (w, b)" by (cases z)
  from Cons.prems have lt: "length buf < n" by simp
  define k where "k = polls - w - 1"
  have k: "polls = w + Suc k" and kk: "sum_list (map fst zs) < Suc k"
    using Cons.prems(2) z by (simp_all add: k_def)
  have "pmsReadN_loop polls n buf (delayed (z # zs) @ r)
      = pmsReadN_loop (Suc k) n buf (Some b # delayed zs @ r)"
    unfolding k z using pmsReadN_loop_waits [OF lt, of w "Suc k"] by simp
  also have "\<dots> = pmsReadN_loop (Suc k) n (buf @ [b]) (delayed zs @ r)"
    using lt by (rule pmsReadN_loop_byte)
  also have "\<dots> = (True, (buf @ [b]) @ map snd zs, r)"
    using Cons.prems(1) kk by (intro Cons.IH) simp_all
  finally show ?case by (simp add: z)
qed

lemma pmsReadN_delayed:
  assumes "length zs = n" and "sum_list (map fst zs) < polls"
  shows "pmsReadN n polls (delayed zs @ r) = (True, map snd zs, r)"
  using pmsReadN_loop_delayed [of "[]" zs n polls r] assms by (simp add: pmsReadN_def)

lemma fold_sum:
  "fold (\<lambda>b acc. acc + ucast b) xs (s0 :: u16) = s0 + of_nat (sum_list (map unat xs))"
  by (induction xs arbitrary: s0) (simp_all add: add.assoc)



text \<open>
  C6. A well-formed frame is decoded wherever it arrives within the timeouts: after any
  run of waits and of bytes other than the first marker, with any waits before and
  between its bytes, as long as the header scan has a poll for each wait and each byte up
  to the second marker, and the two bounded reads have more polls than waits. The result
  is a sample whose six readings are the big-endian values at body offsets 0 to 11, in
  the order of the record, stamped with the clock and marked valid.
\<close>

theorem readPMS5003Frame_decodes:
  assumes wf: "well_formed_frame hi lo body"
    and ln: "line env = pre @ delayed ((w0, 0x42) # (w1, 0x4D) # (w2, hi) # (w3, lo) # zs) @ rest"
    and pre: "Some 0x42 \<notin> set pre"
    and bytes: "map snd zs = body"
    and polls: "length pre + w0 + w1 + 2 \<le> seek_polls env" "w2 + w3 < len_polls env"
      "sum_list (map fst zs) < body_polls env"
  shows "\<exists>smp. readPMS5003Frame env out = Inr smp
      \<and> unat (pm1_cf1 smp) = be_value (body ! 0) (body ! 1)
      \<and> unat (pm25_cf1 smp) = be_value (body ! 2) (body ! 3)
      \<and> unat (pm10_cf1 smp) = be_value (body ! 4) (body ! 5)
      \<and> unat (pm1_atm smp) = be_value (body ! 6) (body ! 7)
      \<and> unat (pm25_atm smp) = be_value (body ! 8) (body ! 9)
      \<and> unat (pm10_atm smp) = be_value (body ! 10) (body ! 11)
      \<and> ts_ms smp = stamp env \<and> valid smp"
proof -
  define L where "L = be_value hi lo"
  from wf have L: "28 \<le> L" "L \<le> 64" "length body = L"
    and chk: "be_value (body ! (L - 2)) (body ! (L - 1))
               = sum_list (map unat ([0x42, 0x4D, hi, lo] @ take (L - 2) body)) mod 65536"
    by (simp_all add: well_formed_frame_def Let_def L_def)
  define s1 where "s1 = delayed ((w2, hi) # (w3, lo) # zs) @ rest"
  define s2 where "s2 = delayed zs @ rest"
  have seek: "seekHeader (seek_polls env) 0 (line env) = (2, s1)"
    unfolding ln s1_def using pre polls(1) by (rule seekHeader_header)
  have "pmsReadN 2 (len_polls env) (delayed [(w2, hi), (w3, lo)] @ s2)
               = (True, map snd [(w2, hi), (w3, lo)], s2)"
    using polls(2) by (intro pmsReadN_delayed) simp_all
  then have len: "pmsReadN 2 (len_polls env) s1 = (True, [hi, lo], s2)"
    by (simp add: s1_def s2_def)
  have fl: "unat (be16 hi lo) = L"
    by (simp add: unat_be16 L_def)
  have bounds: "\<not> (be16 hi lo < 28 \<or> be16 hi lo > 64)" "\<not> unat (be16 hi lo) > 64"
    using L by (simp_all add: word_less_nat_alt fl)
  have "length zs = L"
    using bytes L by (metis length_map)
  then have body: "pmsReadN L (body_polls env) s2 = (True, body, rest)"
    using pmsReadN_delayed [of zs L "body_polls env" rest] polls(3) bytes by (simp add: s2_def)
  have sum: "fold (\<lambda>b acc. acc + ucast b) (take (L - 2) body)
               (0x42 + 0x4D + ucast hi + ucast lo :: u16)
             = be16 (body ! (L - 2)) (body ! (L - 1))"
  proof -
    let ?S = "sum_list (map unat ([0x42, 0x4D, hi, lo] @ take (L - 2) body))"
    have "fold (\<lambda>b acc. acc + ucast b) (take (L - 2) body)
            (0x42 + 0x4D + ucast hi + ucast lo :: u16) = of_nat ?S"
      by (simp add: fold_sum)
    then have "unat (fold (\<lambda>b acc. acc + ucast b) (take (L - 2) body)
            (0x42 + 0x4D + ucast hi + ucast lo :: u16)) = ?S mod 65536"
      by (simp only: unat_of_nat len_bit0 len_num1 mult_1_right) simp
    then show ?thesis
      by (simp only: word_unat_eq_iff unat_be16 chk)
  qed
  let ?smp = "out\<lparr>pm1_cf1 := wordAt body 0, pm25_cf1 := wordAt body 1, pm10_cf1 := wordAt body 2,
                  pm1_atm := wordAt body 3, pm25_atm := wordAt body 4, pm10_atm := wordAt body 5,
                  ts_ms := stamp env, valid := True\<rparr>"
  have "readPMS5003Frame env out = Inr ?smp"
    unfolding readPMS5003Frame_def seek
    using sum L bounds by (simp add: len fl body Let_def del: fold_simps)
  moreover have "unat (wordAt body i) = be_value (body ! (2 * i)) (body ! (2 * i + 1))" for i
    by (simp add: wordAt_def unat_be16 Let_def mult.commute)
  ultimately show ?thesis
    by simp
qed

theorem readPMS5003Frame_decodes_witness:
  "well_formed_frame 0 28 example_body
 \<and> Some 0x42 \<notin> set [None, Some 0x07, Some (0x4D :: byte)]
 \<and> map snd example_arrival = example_body
 \<and> sum_list (map fst example_arrival) = 3
 \<and> readPMS5003Frame paused_env PMSData_init = Inr example_sample
 \<and> unat (pm1_cf1 example_sample) = be_value (example_body ! 0) (example_body ! 1)
 \<and> unat (pm10_atm example_sample) = be_value (example_body ! 10) (example_body ! 11)"
proof -
  have wf: "well_formed_frame 0 28 example_body"
    by (simp add: well_formed_frame_def be_value_def example_body_def Let_def)
  have ln: "line paused_env = [None, Some 0x07, Some 0x4D]
      @ delayed ((1, 0x42) # (0, 0x4D) # (2, 0) # (0, 28) # example_arrival) @ [Some 0x99]"
    by (simp add: paused_env_def example_line_def)
  have pre: "Some 0x42 \<notin> set [None, Some 0x07, Some (0x4D :: byte)]"
    by simp
  have bytes: "map snd example_arrival = example_body"
    by code_simp
  have w: "sum_list (map fst example_arrival) = 3"
    by code_simp
  have polls: "length [None, Some 0x07, Some (0x4D :: byte)] + 1 + 0 + 2 \<le> seek_polls paused_env"
      "2 + 0 < len_polls paused_env"
      "sum_list (map fst example_arrival) < body_polls paused_env"
    by (simp_all add: paused_env_def w)
  have ev: "readPMS5003Frame paused_env PMSData_init = Inr example_sample"
    by code_simp
  from readPMS5003Frame_decodes [OF wf ln pre bytes polls, of PMSData_init] ev wf pre bytes w
  show ?thesis by simp
qed

text \<open>
  C5. The header scan at a repeated first marker: on \<open>0x42 0x42 0x4D\<close> the second
  \<open>0x42\<close>, read in state 1, sends the scan back to state 0, where \<open>0x4D\<close> is not a
  match; the scan ends in state 0 with the line used up. A well-formed frame that follows
  one stray \<open>0x42\<close> is therefore lost, while the same frame alone is decoded.
\<close>

theorem seekHeader_repeated_marker:
  "seekHeader 100 0 (map Some [0x42, 0x42, 0x4D]) = (0, [])
 \<and> readPMS5003Frame (example_pms_env (0x42 # example_frame)) PMSData_init = Inl MarkerTimeout
 \<and> readPMS5003Frame (example_pms_env example_frame) PMSData_init = Inr example_sample"
  by code_simp

text \<open>
  C7. A decode that fails, for whichever of its reasons, leaves the device, and so the
  held sample, exactly as it was; the held sample changes only when the decoder returns
  a sample, and then it is that sample.
\<close>

theorem pollPMS5003_keeps_sample:
  "(readPMS5003Frame env PMSData_init = Inl e \<longrightarrow> pollPMS5003 env d = d)
 \<and> (g_pms (pollPMS5003 env d) \<noteq> g_pms d \<longrightarrow>
      readPMS5003Frame env PMSData_init = Inr (g_pms (pollPMS5003 env d)))
 \<and> (readPMS5003Frame env PMSData_init = Inr smp \<longrightarrow> pollPMS5003 env d = d\<lparr>g_pms := smp\<rparr>)"
  by (cases "readPMS5003Frame env PMSData_init") (simp_all add: pollPMS5003_def)


theorem pollPMS5003_keeps_sample_witness:
  "readPMS5003Frame (example_pms_env corrupted_frame) PMSData_init = Inl ChecksumMismatch
 \<and> valid (g_pms sampled_device)
 \<and> pollPMS5003 (example_pms_env corrupted_frame) sampled_device = sampled_device
 \<and> g_pms (pollPMS5003 (example_pms_env example_frame) registered_device) \<noteq> g_pms registered_device
 \<and> readPMS5003Frame (example_pms_env example_frame) PMSData_init
      = Inr (g_pms (pollPMS5003 (example_pms_env example_frame) registered_device))
 \<and> pollPMS5003 (example_pms_env example_frame) registered_device
      = registered_device\<lparr>g_pms := example_sample\<rparr>"
proof -
  have bad: "readPMS5003Frame (example_pms_env corrupted_frame) PMSData_init = Inl ChecksumMismatch"
    by code_simp
  have good: "readPMS5003Frame (example_pms_env example_frame) PMSData_init = Inr example_sample"
    by code_simp
  have v: "valid (g_pms sampled_device)"
    by code_simp
  have ch: "g_pms (pollPMS5003 (example_pms_env example_frame) registered_device)
              \<noteq> g_pms registered_device"
    by code_simp
  note i1 = pollPMS5003_keeps_sample [of "example_pms_env corrupted_frame" ChecksumMismatch
         sampled_device example_sample]
  note i2 = pollPMS5003_keeps_sample [of "example_pms_env example_frame" ChecksumMismatch
         registered_device example_sample]
  from i1 bad have c1: "pollPMS5003 (example_pms_env corrupted_frame) sampled_device = sampled_device"
    by blast
  from i2 ch have c2: "readPMS5003Frame (example_pms_env example_frame) PMSData_init
      = Inr (g_pms (pollPMS5003 (example_pms_env example_frame) registered_device))"
    by blast
  from i2 good have c3: "pollPMS5003 (example_pms_env example_frame) registered_device
      = registered_device\<lparr>g_pms := example_sample\<rparr>"
    by blast
  from bad v c1 ch c2 c3 show ?thesis
    by blast
qed


subsection \<open>The supervisors\<close>

text \<open>
  What holds of both supervisors: from backoff 0, after \<open>N\<close> attempts in a row the backoff
  is \<open>min (5000 * N) 60000\<close> milliseconds; and a successful connect of the broker
  supervisor sets its backoff to 0 and leaves the next attempt due at once.
\<close>

lemma backoff_step:
  fixes b :: u32
  assumes "unat b = min (5000 * n) 60000"
  shows "unat (if b + 5000 > 60000 then 60000 else b + 5000) = min (5000 * Suc n) 60000"
    and "unat (min (b + 5000) 60000) = min (5000 * Suc n) 60000"
proof -
  have "unat b + 5000 < 2 ^ 32" using assms by simp
  then have u: "unat (b + 5000) = unat b + 5000"
    by (simp add: unat_add_lem [THEN iffD1])
  show "unat (if b + 5000 > 60000 then 60000 else b + 5000) = min (5000 * Suc n) 60000"
    using assms u by (auto simp: word_less_nat_alt)
  show "unat (min (b + 5000) 60000) = min (5000 * Suc n) 60000"
    using assms u by (auto simp: min_def word_le_nat_alt)
qed

lemma sta_attempt:
  assumes "haveWifiCreds (config d)" and "\<not> (t - lastStaAttempt d < staBackoffMs d)"
  shows "ensureStaConnected False t d =
     d\<lparr>trace := trace d @ [WifiBegin (cstr (wifi_ssid (config d))) (cstr (wifi_pass (config d)))],
       lastStaAttempt := t,
       staBackoffMs := (if staBackoffMs d + 5000 > 60000 then 60000 else staBackoffMs d + 5000)\<rparr>"
  using assms by (simp add: ensureStaConnected_def Let_def)

lemma sta_backoff_growth:
  assumes "haveWifiCreds (config d)" and "unat (staBackoffMs d) = min (5000 * n) 60000"
    and "sta_due ts d"
  shows "unat (staBackoffMs (sta_failures ts d)) = min (5000 * (n + length ts)) 60000"
  using assms
proof (induction ts arbitrary: d n)
  case Nil
  then show ?case by simp
next
  case (Cons t ts)
  let ?d = "ensureStaConnected False t d"
  from Cons.prems have due: "\<not> (t - lastStaAttempt d < staBackoffMs d)" and rest: "sta_due ts ?d"
    by simp_all
  have "haveWifiCreds (config ?d)"
    using Cons.prems(1) due by (simp add: sta_attempt)
  moreover have "unat (staBackoffMs ?d) = min (5000 * Suc n) 60000"
    using backoff_step(1) [OF Cons.prems(2)] Cons.prems(1) due by (simp add: sta_attempt)
  ultimately have "unat (staBackoffMs (sta_failures ts ?d)) = min (5000 * (Suc n + length ts)) 60000"
    using rest by (rule Cons.IH)
  then show ?case by simp
qed

lemma mqtt_attempt:
  assumes "haveMqttCreds (config d)" and "\<not> (t - lastMqttConnAttempt d < mqttBackoffMs d)"
  shows "mqttEnsureConnected True t False ok d =
     d\<lparr>mqttBackoffMs := (if ok then 0 else min (mqttBackoffMs d + 5000) 60000),
       lastMqttConnAttempt := t\<rparr>"
  using assms by (simp add: mqttEnsureConnected_def Let_def)

lemma mqtt_backoff_growth:
  assumes "haveMqttCreds (config d)" and "unat (mqttBackoffMs d) = min (5000 * n) 60000"
    and "mqtt_due ts d"
  shows "unat (mqttBackoffMs (mqtt_failures ts d)) = min (5000 * (n + length ts)) 60000"
  using assms
proof (induction ts arbitrary: d n)
  case Nil
  then show ?case by simp
next
  case (Cons t ts)
  let ?d = "mqttEnsureConnected True t False False d"
  from Cons.prems have due: "\<not> (t - lastMqttConnAttempt d < mqttBackoffMs d)"
    and rest: "mqtt_due ts ?d"
    by simp_all
  have "haveMqttCreds (config ?d)"
    using Cons.prems(1) due by (simp add: mqtt_attempt)
  moreover have "unat (mqttBackoffMs ?d) = min (5000 * Suc n) 60000"
    using backoff_step(2) [OF Cons.prems(2)] Cons.prems(1) due by (simp add: mqtt_attempt)
  ultimately have "unat (mqttBackoffMs (mqtt_failures ts ?d)) = min (5000 * (Suc n + length ts)) 60000"
    using rest by (rule Cons.IH)
  then show ?case by simp
qed

lemma mqtt_success_resets:
  assumes "haveMqttCreds (config d)" and "\<not> (t - lastMqttConnAttempt d < mqttBackoffMs d)"
  shows "mqttBackoffMs (mqttEnsureConnected True t False True d) = 0"
    and "\<not> (t - lastMqttConnAttempt (mqttEnsureConnected True t False True d)
             < mqttBackoffMs (mqttEnsureConnected True t False True d))"
  using assms by (simp_all add: mqtt_attempt)

lemma ensureStaConnected_connected: "ensureStaConnected True now d = d"
  by (simp add: ensureStaConnected_def)


text \<open>
  C1. The station supervisor after a success: one attempt from backoff 0 leaves 5000;
  a call that then finds the station connected returns at once and the backoff is still
  5000; when the connection drops, a call at that same instant makes no attempt, since
  only 1000 of the 5000 milliseconds have passed since the last one.
\<close>

theorem ensureStaConnected_keeps_backoff:
  "haveWifiCreds (config sta_device) \<and> staBackoffMs sta_device = 0
 \<and> staBackoffMs (ensureStaConnected False 1000 sta_device) = 5000
 \<and> ensureStaConnected True 2000 (ensureStaConnected False 1000 sta_device)
      = ensureStaConnected False 1000 sta_device
 \<and> ensureStaConnected False 2000 (ensureStaConnected False 1000 sta_device)
      = ensureStaConnected False 1000 sta_device"
  by code_simp

theorem ensureStaConnected_keeps_backoff_witness:
  "haveWifiCreds (config sta_device)
 \<and> staBackoffMs (ensureStaConnected True 2000 (ensureStaConnected False 1000 sta_device)) = 5000
 \<and> trace (ensureStaConnected False 2000
             (ensureStaConnected True 2000 (ensureStaConnected False 1000 sta_device)))
      = trace (ensureStaConnected False 1000 sta_device)"
  using ensureStaConnected_keeps_backoff by simp

subsection \<open>The publish gate\<close>

lemma millis_elapsed:
  assumes "t0 \<le> t" and "\<not> ((of_nat t - of_nat t0 :: u32) < 20000)"
  shows "t0 + 20000 \<le> t"
proof -
  have "(of_nat t - of_nat t0 :: u32) = of_nat (t - t0)"
    using assms(1) by simp
  then have "unat (of_nat t - of_nat t0 :: u32) = (t - t0) mod 2 ^ 32"
    by (simp only: unat_of_nat len_bit0 len_num1 mult_1_right) simp
  moreover have "20000 \<le> unat (of_nat t - of_nat t0 :: u32)"
    using assms(2) by (simp add: word_less_nat_alt)
  moreover have "(t - t0) mod 2 ^ 32 \<le> t - t0"
    by (rule mod_less_eq_dividend)
  ultimately show ?thesis by linarith
qed

lemma gate_emits:
  assumes "fst (mqttMaybePublish net now conn d) = Some i"
  shows "valid (g_pms d) \<and> registration_ok (config d) \<noteq> 0 \<and> (net \<longrightarrow> conn)
       \<and> readings i = (pm1_atm (g_pms d), pm25_atm (g_pms d), pm10_atm (g_pms d))"
  using assms
  by (auto simp: mqttMaybePublish_def haveMqttCreds_def Let_def split: if_splits)

lemma gate_net_cases:
  "mqttMaybePublish True now conn d = (None, d)
 \<or> (\<not> (now - lastMqttPub d < 20000) \<and>
     (\<exists>i. mqttMaybePublish True now conn d = (Some i, d\<lparr>lastMqttPub := now\<rparr>)))"
  by (simp add: mqttMaybePublish_def Let_def)

lemma publish_run_spaced:
  assumes "sorted (map at_ms cs)" and "lastMqttPub d = of_nat t0" and "\<forall>c\<in>set cs. t0 \<le> at_ms c"
  shows "sorted_wrt (\<lambda>a b. a + 20000 \<le> b) (map fst (publish_run True d cs))
       \<and> (\<forall>p\<in>set (publish_run True d cs). t0 + 20000 \<le> fst p)"
  using assms
proof (induction cs arbitrary: d t0)
  case Nil
  then show ?case by simp
next
  case (Cons c cs)
  let ?d0 = "d\<lparr>g_pms := held_sample c, config := held_config c\<rparr>"
  let ?now = "of_nat (at_ms c) :: u32"
  have srt: "sorted (map at_ms cs)" and later: "\<forall>x\<in>set cs. at_ms c \<le> at_ms x"
    using Cons.prems(1) by simp_all
  have here: "t0 \<le> at_ms c" and rest: "\<forall>x\<in>set cs. t0 \<le> at_ms x"
    using Cons.prems(3) by simp_all
  from gate_net_cases [of ?now "broker_up c" ?d0]
  show ?case
  proof
    assume silent: "mqttMaybePublish True ?now (broker_up c) ?d0 = (None, ?d0)"
    have "lastMqttPub ?d0 = of_nat t0"
      using Cons.prems(2) by simp
    from Cons.IH [OF srt this rest] show ?thesis
      by (simp add: silent)
  next
    assume "\<not> (?now - lastMqttPub ?d0 < 20000) \<and>
      (\<exists>i. mqttMaybePublish True ?now (broker_up c) ?d0 = (Some i, ?d0\<lparr>lastMqttPub := ?now\<rparr>))"
    then obtain i where due: "\<not> (?now - lastMqttPub ?d0 < 20000)"
      and emit: "mqttMaybePublish True ?now (broker_up c) ?d0 = (Some i, ?d0\<lparr>lastMqttPub := ?now\<rparr>)"
      by blast
    have t: "t0 + 20000 \<le> at_ms c"
      using millis_elapsed [OF here] due Cons.prems(2) by simp
    have "lastMqttPub (?d0\<lparr>lastMqttPub := ?now\<rparr>) = of_nat (at_ms c)"
      by simp
    from Cons.IH [OF srt this later]
    have ih: "sorted_wrt (\<lambda>a b. a + 20000 \<le> b)
                (map fst (publish_run True (?d0\<lparr>lastMqttPub := ?now\<rparr>) cs))"
      and far: "\<forall>p\<in>set (publish_run True (?d0\<lparr>lastMqttPub := ?now\<rparr>) cs). at_ms c + 20000 \<le> fst p"
      by simp_all
    show ?thesis
      using ih far t by (auto simp: emit)
  qed
qed


lemma publish_run_readings:
  assumes "(t, i) \<in> set (publish_run net d cs)"
  shows "\<exists>c\<in>set cs. at_ms c = t \<and> valid (held_sample c)
           \<and> readings i = (pm1_atm (held_sample c), pm25_atm (held_sample c), pm10_atm (held_sample c))"
  using assms
proof (induction cs arbitrary: d)
  case Nil
  then show ?case by simp
next
  case (Cons c cs)
  let ?d0 = "d\<lparr>g_pms := held_sample c, config := held_config c\<rparr>"
  obtain r d' where r: "mqttMaybePublish net (of_nat (at_ms c)) (broker_up c) ?d0 = (r, d')"
    by (cases "mqttMaybePublish net (of_nat (at_ms c)) (broker_up c) ?d0")
  show ?case
  proof (cases r)
    case None
    with Cons.prems r have "(t, i) \<in> set (publish_run net d' cs)"
      by simp
    from Cons.IH [OF this] show ?thesis by auto
  next
    case (Some j)
    with Cons.prems r have "(t, i) = (at_ms c, j) \<or> (t, i) \<in> set (publish_run net d' cs)"
      by simp
    then show ?thesis
    proof
      assume "(t, i) = (at_ms c, j)"
      moreover have "fst (mqttMaybePublish net (of_nat (at_ms c)) (broker_up c) ?d0) = Some j"
        using r Some by simp
      from gate_emits [OF this] have "valid (held_sample c)
          \<and> readings j = (pm1_atm (held_sample c), pm25_atm (held_sample c), pm10_atm (held_sample c))"
        by simp
      ultimately show ?thesis by auto
    next
      assume "(t, i) \<in> set (publish_run net d' cs)"
      from Cons.IH [OF this] show ?thesis by auto
    qed
  qed
qed


text \<open>
  C3, as amended. In either build an intent is emitted only when the held sample is
  valid and the registration flag is set, and in the networked build only when the broker
  is connected; it carries the three ATM readings of the held sample. In the networked
  build the intents of a run are at least 20000 milliseconds apart. In the stub build the
  gate emits at every call at which the sample is valid and the flag is set, whatever the
  time and the broker.
\<close>

theorem mqttMaybePublish_gate:
  "(fst (mqttMaybePublish net now conn d) = Some i \<longrightarrow>
      valid (g_pms d) \<and> registration_ok (config d) \<noteq> 0 \<and> (net \<longrightarrow> conn)
    \<and> readings i = (pm1_atm (g_pms d), pm25_atm (g_pms d), pm10_atm (g_pms d)))
 \<and> (sorted (map at_ms cs) \<and> lastMqttPub d = of_nat t0 \<and> (\<forall>c\<in>set cs. t0 \<le> at_ms c) \<longrightarrow>
      sorted_wrt (\<lambda>a b. a + 20000 \<le> b) (map fst (publish_run True d cs)))
 \<and> (\<forall>p\<in>set (publish_run net d cs). \<exists>c\<in>set cs. at_ms c = fst p \<and> valid (held_sample c)
      \<and> readings (snd p)
          = (pm1_atm (held_sample c), pm25_atm (held_sample c), pm10_atm (held_sample c)))
 \<and> fst (mqttMaybePublish False now conn d)
      = (if valid (g_pms d) \<and> registration_ok (config d) \<noteq> 0
         then Some (WouldPublish (pm1_atm (g_pms d)) (pm25_atm (g_pms d)) (pm10_atm (g_pms d)))
         else None)"
proof (intro conjI impI ballI)
  assume "fst (mqttMaybePublish net now conn d) = Some i"
  from gate_emits [OF this]
  show "valid (g_pms d)" and "registration_ok (config d) \<noteq> 0" and "net \<Longrightarrow> conn"
    and "readings i = (pm1_atm (g_pms d), pm25_atm (g_pms d), pm10_atm (g_pms d))"
    by simp_all
next
  assume "sorted (map at_ms cs) \<and> lastMqttPub d = of_nat t0 \<and> (\<forall>c\<in>set cs. t0 \<le> at_ms c)"
  then show "sorted_wrt (\<lambda>a b. a + 20000 \<le> b) (map fst (publish_run True d cs))"
    using publish_run_spaced by blast
next
  fix p assume "p \<in> set (publish_run net d cs)"
  then have "(fst p, snd p) \<in> set (publish_run net d cs)" by simp
  from publish_run_readings [OF this]
  show "\<exists>c\<in>set cs. at_ms c = fst p \<and> valid (held_sample c)
      \<and> readings (snd p)
          = (pm1_atm (held_sample c), pm25_atm (held_sample c), pm10_atm (held_sample c))" .
next
  show "fst (mqttMaybePublish False now conn d)
      = (if valid (g_pms d) \<and> registration_ok (config d) \<noteq> 0
         then Some (WouldPublish (pm1_atm (g_pms d)) (pm25_atm (g_pms d)) (pm10_atm (g_pms d)))
         else None)"
    by (simp add: mqttMaybePublish_def)
qed

theorem mqttMaybePublish_gate_witness:
  "fst (mqttMaybePublish True 20000 True sampled_device)
     = Some (Publish (mqttTopic (config registered_device)) 4 5 6)
 \<and> valid (g_pms sampled_device) \<and> registration_ok (config sampled_device) = 1
 \<and> sorted (map at_ms example_calls) \<and> lastMqttPub sampled_device = of_nat 0
 \<and> list_all (\<lambda>c. 0 \<le> at_ms c) example_calls
 \<and> publish_run True sampled_device example_calls
     = [(20000, Publish (mqttTopic (config registered_device)) 4 5 6),
        (41000, Publish (mqttTopic (config registered_device)) 4 5 6)]
 \<and> sorted_wrt (\<lambda>a b. a + 20000 \<le> b) (map fst (publish_run True sampled_device example_calls))
 \<and> map (\<lambda>c. pm10_atm (held_sample c)) example_calls = [6, 6, 6, 6]
 \<and> fst (mqttMaybePublish False 20000 False sampled_device) = Some (WouldPublish 4 5 6)"
proof -
  have hc: "haveMqttCreds (config registered_device)"
    by code_simp
  have ro: "registration_ok (config sampled_device) = 1"
    by code_simp
  have lp: "lastMqttPub sampled_device = 0"
    by code_simp
  have gs: "g_pms sampled_device = example_sample"
    by code_simp
  have cf: "config sampled_device = config registered_device"
    by (simp add: sampled_device_def pollPMS5003_def split: sum.splits)
  have e1: "fst (mqttMaybePublish True 20000 True sampled_device)
     = Some (Publish (mqttTopic (config registered_device)) 4 5 6)"
    by (simp add: mqttMaybePublish_def cf hc lp gs example_sample_def Let_def)
  have v: "valid (g_pms sampled_device)"
    by (simp add: gs example_sample_def)
  have run: "publish_run True sampled_device example_calls
     = [(20000, Publish (mqttTopic (config registered_device)) 4 5 6),
        (41000, Publish (mqttTopic (config registered_device)) 4 5 6)]"
    by (simp add: example_calls_def example_call_def mqttMaybePublish_def hc lp
        example_sample_def Let_def)
  have h: "sorted (map at_ms example_calls)" "lastMqttPub sampled_device = of_nat 0"
      "\<forall>c\<in>set example_calls. 0 \<le> at_ms c"
    by (simp_all add: example_calls_def example_call_def lp)
  note g = mqttMaybePublish_gate [where net = True and now = 20000 and conn = True
      and d = sampled_device and cs = example_calls and ?t0.0 = 0
      and i = "Publish (mqttTopic (config registered_device)) 4 5 6"]
  from g h have sp: "sorted_wrt (\<lambda>a b. a + 20000 \<le> b)
      (map fst (publish_run True sampled_device example_calls))"
    by blast
  from g have rd: "\<forall>p\<in>set (publish_run True sampled_device example_calls).
       \<exists>c\<in>set example_calls. at_ms c = fst p \<and> valid (held_sample c)
         \<and> readings (snd p)
             = (pm1_atm (held_sample c), pm25_atm (held_sample c), pm10_atm (held_sample c))"
    by blast
  have st: "fst (mqttMaybePublish False 20000 False sampled_device) = Some (WouldPublish 4 5 6)"
    using mqttMaybePublish_gate [where now = 20000 and conn = False and d = sampled_device]
    by (simp add: v ro gs example_sample_def)
  have la: "list_all (\<lambda>c. 0 \<le> at_ms c) example_calls"
    using h(3) by (simp add: list_all_iff)
  have hs: "map (\<lambda>c. pm10_atm (held_sample c)) example_calls = [6, 6, 6, 6]"
    using rd by (simp add: example_calls_def example_call_def example_sample_def)
  from e1 v ro h(1,2) la run sp hs st show ?thesis
    by blast
qed


text \<open>
  C3, as stated, fails in the stub build: two calls one millisecond apart, with the
  broker down, each emit an intent.
\<close>

theorem stub_gate_unthrottled:
  "publish_run False sampled_device [example_call 1000 False, example_call 1001 False]
     = [(1000, WouldPublish 4 5 6), (1001, WouldPublish 4 5 6)]
 \<and> \<not> sorted_wrt (\<lambda>a b. a + 20000 \<le> b)
       (map fst (publish_run False sampled_device
          [example_call 1000 False, example_call 1001 False]))"
proof -
  have ro: "registration_ok (config registered_device) = 1"
    by code_simp
  have "publish_run False sampled_device [example_call 1000 False, example_call 1001 False]
     = [(1000, WouldPublish 4 5 6), (1001, WouldPublish 4 5 6)]"
    by (simp add: example_call_def mqttMaybePublish_def ro example_sample_def)
  then show ?thesis by simp
qed

end
